theory Spec2Isabelle
  imports Main "HOL-Library.Sublist"
begin

section \<open>Data model\<close>

text \<open>
  The development follows \<^verbatim>\<open>daemon/images/image_push.go\<close> (the part that defines
  \<^verbatim>\<open>GetImage\<close>, \<^verbatim>\<open>manifestMatchesPlatform\<close> and \<^verbatim>\<open>OnlyPlatformWithFallback\<close>).
  Blobs and digests are Go strings and byte slices; both are character lists here.
\<close>

type_synonym bytes = string
type_synonym digest = string

text \<open>
  Modelled from the spec: \<^verbatim>\<open>ocispec.Platform\<close> and \<^verbatim>\<open>ocispec.Descriptor\<close> are declared
  outside the sources at hand. The spec's data model gives a platform specification as the
  triple of operating system, architecture and variant, and a manifest-list entry as
  content digest, media type and platform specification; the code reads exactly these
  fields. The entry's platform is a plain field, as in the spec.
\<close>

record platform =
  Architecture :: string
  OS :: string
  Variant :: string

record descriptor =
  MediaType :: string
  Digest :: digest
  Platform :: platform

text \<open>\<^verbatim>\<open>type manifestList struct { Manifests []ocispec.Descriptor }\<close> and
  \<^verbatim>\<open>type manifest struct { Config ocispec.Descriptor }\<close>.\<close>

record manifestList =
  Manifests :: "descriptor list"

record manifest =
  Config :: descriptor

text \<open>The image record: its identity digest and the denormalized platform fields.\<close>

record image =
  image_ID :: digest
  image_OS :: string
  image_Architecture :: string
  image_Variant :: string

text \<open>A lease resource, \<^verbatim>\<open>leases.Resource{ID, Type}\<close>.\<close>

record resource =
  resource_ID :: string
  resource_Type :: string

text \<open>\<^verbatim>\<open>backend.GetImageOpts\<close>: only the optional platform is read.\<close>

record GetImageOpts =
  opts_Platform :: "platform option"

text \<open>
  Errors of the content store and the lease registry are classified by
  \<^verbatim>\<open>cerrdefs.IsNotFound\<close>; the classification is a tag of the error value.
\<close>

datatype cerror = ErrNotFound string | ErrOther string

fun IsNotFound :: "cerror \<Rightarrow> bool" where
  "IsNotFound (ErrNotFound _) = True"
| "IsNotFound (ErrOther _) = False"

text \<open>
  A parsed reference. The code only asks whether it is a \<^verbatim>\<open>reference.Named\<close> and,
  if not, whether it is a \<^verbatim>\<open>reference.Digested\<close>; the two type assertions are the two
  optional fields.
\<close>

record reference =
  Named :: "string option"
  Digested :: "digest option"

text \<open>
  The errors \<^verbatim>\<open>GetImage\<close> can return: \<^verbatim>\<open>errdefs.InvalidParameter\<close>,
  \<^verbatim>\<open>ErrImageDoesNotExist\<close>, \<^verbatim>\<open>errdefs.NotFound\<close> with its message, and an error of the
  lease registry handed through unchanged.
\<close>

datatype error =
  InvalidParameter string
| ErrImageDoesNotExist reference
| NotFound string
| LeaseError cerror

section \<open>Readers\<close>

text \<open>
  A \<^verbatim>\<open>content.ReaderAt\<close> delivers the bytes \<open>ra_data\<close> from offset 0; a read at an offset
  past them ends with \<open>ra_err\<close> (\<open>None\<close> is \<^verbatim>\<open>io.EOF\<close>). \<open>Size\<close> is what
  \<^verbatim>\<open>ra.Size()\<close> reports.
\<close>

record readerAt =
  ra_data :: bytes
  Size :: nat
  ra_err :: "cerror option"

text \<open>An \<^verbatim>\<open>io.Reader\<close>: the bytes it yields, then end of file or an error.\<close>

datatype reader = Reader bytes "cerror option"

definition NewSectionReader :: "readerAt \<Rightarrow> nat \<Rightarrow> nat \<Rightarrow> reader" where
  "NewSectionReader ra off n =
     (let s = drop off (ra_data ra) in
      if n \<le> length s then Reader (take n s) None else Reader s (ra_err ra))"

fun LimitReader :: "reader \<Rightarrow> nat \<Rightarrow> reader" where
  "LimitReader (Reader bs e) n =
     (if n \<le> length bs then Reader (take n bs) None else Reader bs e)"

fun ReadAll :: "reader \<Rightarrow> bytes \<times> cerror option" where
  "ReadAll (Reader bs e) = (bs, e)"

text \<open>\<^verbatim>\<open>io.LimitReader(io.NewSectionReader(ra, 0, ra.Size()), 1e6)\<close>\<close>

definition makeRdr :: "readerAt \<Rightarrow> reader" where
  "makeRdr ra = LimitReader (NewSectionReader ra 0 (Size ra)) 1000000"

section \<open>Collaborators\<close>

text \<open>
  Library functions the code calls and whose source is not part of the repository excerpt:
  they are parameters. \<^verbatim>\<open>json.Unmarshal(data, &v)\<close> writes into an existing value, so it
  takes the value found in \<open>v\<close> and returns the value left there together with the error
  flag.
\<close>

record lib =
  platforms_Only :: "platform \<Rightarrow> platform \<Rightarrow> bool"
  platforms_Normalize :: "platform \<Rightarrow> platform"
  platforms_FormatAll :: "platform \<Rightarrow> string"
  json_Unmarshal_manifestList :: "bytes \<Rightarrow> manifestList \<Rightarrow> manifestList \<times> bool"
  json_Unmarshal_manifest :: "bytes \<Rightarrow> manifest \<Rightarrow> manifest \<times> bool"
  reference_ParseAnyReference :: "string \<Rightarrow> string + reference"
  reference_ParseNamed :: "string \<Rightarrow> string option"
  reference_FamiliarString :: "string \<Rightarrow> string"
  imageKey :: "string \<Rightarrow> string"
  MediaTypeImageManifest :: string
  MediaTypeDockerSchema2Manifest :: string

text \<open>The stores of the \<^verbatim>\<open>ImageService\<close> receiver; a lookup that fails returns no value.\<close>

record ImageService =
  leases_ListResources :: "string \<Rightarrow> cerror + resource list"
  content_ReaderAt :: "digest \<Rightarrow> cerror + readerAt"
  imageStore_Get :: "digest \<Rightarrow> image option"
  imageStore_Search :: "string \<Rightarrow> digest option"
  referenceStore_Get :: "string \<Rightarrow> digest option"

section \<open>The fallback matcher\<close>

record onlyFallbackMatcher =
  matcher_only :: "platform \<Rightarrow> bool"
  matcher_p :: platform

definition OnlyPlatformWithFallback :: "lib \<Rightarrow> platform \<Rightarrow> onlyFallbackMatcher" where
  "OnlyPlatformWithFallback L p =
     \<lparr>matcher_only = platforms_Only L p, matcher_p = platforms_Normalize L p\<rparr>"

definition Match :: "lib \<Rightarrow> onlyFallbackMatcher \<Rightarrow> platform \<Rightarrow> bool" where
  "Match L mt other =
     (if matcher_only mt other then True
      else if Variant other \<noteq> [] then False
      else (let otherN = platforms_Normalize L other in
            OS (matcher_p mt) = OS otherN \<and> Architecture (matcher_p mt) = Architecture otherN))"

section \<open>The manifest-list scanner\<close>

text \<open>
  The calls made to the lease registry and to the content store are recorded in order, so
  that a statement about which calls happen can be made.
\<close>

datatype call = ListResources string | ReaderAt digest

text \<open>
  The variables \<^verbatim>\<open>ml\<close> and \<^verbatim>\<open>m\<close> are declared once, before the loops, and every
  \<^verbatim>\<open>json.Unmarshal\<close> writes into them: they are part of the state the loops thread.
\<close>

record scan_state =
  st_ml :: manifestList
  st_m :: manifest
  st_calls :: "call list"

text \<open>The inner loop, \<^verbatim>\<open>for _, md := range ml.Manifests\<close>.\<close>

fun scan_manifests ::
  "lib \<Rightarrow> ImageService \<Rightarrow> image \<Rightarrow> (platform \<Rightarrow> bool) \<Rightarrow> descriptor list \<Rightarrow> scan_state
     \<Rightarrow> bool \<times> scan_state" where
  "scan_manifests L i img comparer [] s = (False, s)"
| "scan_manifests L i img comparer (md # mds) s =
     (if MediaType md \<noteq> MediaTypeImageManifest L \<and> MediaType md \<noteq> MediaTypeDockerSchema2Manifest L
      then scan_manifests L i img comparer mds s
      else
        let p = \<lparr>Architecture = Architecture (Platform md), OS = OS (Platform md),
                 Variant = Variant (Platform md)\<rparr> in
        if \<not> comparer p then scan_manifests L i img comparer mds s
        else
          let s1 = s\<lparr>st_calls := st_calls s @ [ReaderAt (Digest md)]\<rparr> in
          (case content_ReaderAt i (Digest md) of
             Inl err \<Rightarrow> scan_manifests L i img comparer mds s1
           | Inr ra \<Rightarrow>
              (case ReadAll (makeRdr ra) of
                 (data, Some err) \<Rightarrow> scan_manifests L i img comparer mds s1
               | (data, None) \<Rightarrow>
                  (case json_Unmarshal_manifest L data (st_m s1) of
                     (m', err) \<Rightarrow>
                       let s2 = s1\<lparr>st_m := m'\<rparr> in
                       if err then scan_manifests L i img comparer mds s2
                       else if Digest (Config m') = image_ID img then (True, s2)
                       else scan_manifests L i img comparer mds s2))))"

text \<open>The outer loop, \<^verbatim>\<open>for _, r := range ls\<close>.\<close>

fun scan_resources ::
  "lib \<Rightarrow> ImageService \<Rightarrow> image \<Rightarrow> (platform \<Rightarrow> bool) \<Rightarrow> resource list \<Rightarrow> scan_state
     \<Rightarrow> bool \<times> scan_state" where
  "scan_resources L i img comparer [] s = (False, s)"
| "scan_resources L i img comparer (r # rs) s =
     (if resource_Type r \<noteq> ''content'' then scan_resources L i img comparer rs s
      else
        let s1 = s\<lparr>st_calls := st_calls s @ [ReaderAt (resource_ID r)]\<rparr> in
        (case content_ReaderAt i (resource_ID r) of
           Inl err \<Rightarrow>
             (if IsNotFound err then scan_resources L i img comparer rs s1
              else scan_resources L i img comparer rs s1)
         | Inr ra \<Rightarrow>
            (case ReadAll (makeRdr ra) of
               (data, Some err) \<Rightarrow> scan_resources L i img comparer rs s1
             | (data, None) \<Rightarrow>
                (let s2 = s1\<lparr>st_ml := (st_ml s1)\<lparr>Manifests := []\<rparr>\<rparr> in
                 case json_Unmarshal_manifestList L data (st_ml s2) of
                   (ml', err) \<Rightarrow>
                     let s3 = s2\<lparr>st_ml := ml'\<rparr> in
                     if err then scan_resources L i img comparer rs s3
                     else
                       (case scan_manifests L i img comparer (Manifests ml') s3 of
                          (True, s4) \<Rightarrow> (True, s4)
                        | (False, s4) \<Rightarrow> scan_resources L i img comparer rs s4)))))"

text \<open>The zero values of \<^verbatim>\<open>var ( ml manifestList; m manifest )\<close>.\<close>

definition zero_platform :: platform where
  "zero_platform = \<lparr>Architecture = [], OS = [], Variant = []\<rparr>"

definition zero_descriptor :: descriptor where
  "zero_descriptor = \<lparr>MediaType = [], Digest = [], Platform = zero_platform\<rparr>"

definition zero_manifestList :: manifestList where
  "zero_manifestList = \<lparr>Manifests = []\<rparr>"

definition zero_manifest :: manifest where
  "zero_manifest = \<lparr>Config = zero_descriptor\<rparr>"

definition manifestMatchesPlatform ::
  "lib \<Rightarrow> ImageService \<Rightarrow> image \<Rightarrow> platform \<Rightarrow> bool \<times> cerror option \<times> call list" where
  "manifestMatchesPlatform L i img platform =
     (let key = imageKey L (image_ID img) in
      case leases_ListResources i key of
        Inl err \<Rightarrow>
          (if IsNotFound err then (False, None, [ListResources key])
           else (False, Some err, [ListResources key]))
      | Inr ls \<Rightarrow>
          (let comparer = platforms_Only L platform in
           case scan_resources L i img comparer ls
                  \<lparr>st_ml = zero_manifestList, st_m = zero_manifest, st_calls = [ListResources key]\<rparr> of
             (found, s) \<Rightarrow> (found, None, st_calls s)))"

section \<open>The image resolver\<close>

text \<open>The statements of \<^verbatim>\<open>GetImage\<close> after the \<^verbatim>\<open>defer\<close>: the named results they set.\<close>

definition GetImage_lookup :: "lib \<Rightarrow> ImageService \<Rightarrow> string \<Rightarrow> image option \<times> error option" where
  "GetImage_lookup L i refOrID =
     (case reference_ParseAnyReference L refOrID of
        Inl err \<Rightarrow> (None, Some (InvalidParameter err))
      | Inr ref \<Rightarrow>
         (case Named ref of
            None \<Rightarrow>
              (case Digested ref of
                 None \<Rightarrow> (None, Some (ErrImageDoesNotExist ref))
               | Some dgst \<Rightarrow>
                  (case imageStore_Get i dgst of
                     Some img \<Rightarrow> (Some img, None)
                   | None \<Rightarrow> (None, Some (ErrImageDoesNotExist ref))))
          | Some namedRef \<Rightarrow>
              (case (case referenceStore_Get i namedRef of
                       None \<Rightarrow> None
                     | Some dgst \<Rightarrow> imageStore_Get i dgst) of
                 Some img \<Rightarrow> (Some img, None)
               | None \<Rightarrow>
                  (case imageStore_Search i refOrID of
                     Some imgID \<Rightarrow>
                       (case imageStore_Get i imgID of
                          None \<Rightarrow> (None, Some (ErrImageDoesNotExist ref))
                        | Some img \<Rightarrow> (Some img, None))
                   | None \<Rightarrow> (None, Some (ErrImageDoesNotExist ref))))))"

text \<open>The message built by \<^verbatim>\<open>errors.Errorf\<close> in the deferred function.\<close>

definition mismatch_message :: "string \<Rightarrow> string \<Rightarrow> string \<Rightarrow> string" where
  "mismatch_message imgName imgPlat reqPlat =
     ''image with reference '' @ imgName @ '' was found but its platform ('' @ imgPlat @
     '') does not match the specified platform ('' @ reqPlat @ '')''"

text \<open>
  The deferred function: it receives the named results \<^verbatim>\<open>retImg\<close> and \<^verbatim>\<open>retErr\<close> and
  returns what the caller gets, with the calls made to the lease registry and the content
  store.
\<close>

definition GetImage_deferred ::
  "lib \<Rightarrow> ImageService \<Rightarrow> string \<Rightarrow> GetImageOpts \<Rightarrow> image option \<times> error option
     \<Rightarrow> image option \<times> error option \<times> call list" where
  "GetImage_deferred L i refOrID options res =
     (case res of (retImg, retErr) \<Rightarrow>
        (case (retErr, retImg, opts_Platform options) of
           (None, Some img, Some p) \<Rightarrow>
             (let imgPlat = \<lparr>Architecture = image_Architecture img, OS = image_OS img,
                             Variant = image_Variant img\<rparr> in
              if Match L (OnlyPlatformWithFallback L p) imgPlat then (retImg, retErr, [])
              else
                (case manifestMatchesPlatform L i img p of
                   (matches, scanErr, cs) \<Rightarrow>
                     if matches \<or> scanErr \<noteq> None then (retImg, map_option LeaseError scanErr, cs)
                     else
                       (let imgName = (case reference_ParseNamed L refOrID of
                                         Some ref \<Rightarrow> reference_FamiliarString L ref
                                       | None \<Rightarrow> refOrID) in
                        (retImg,
                         Some (NotFound (mismatch_message imgName
                                 (platforms_FormatAll L imgPlat) (platforms_FormatAll L p))),
                         cs))))
         | _ \<Rightarrow> (retImg, retErr, [])))"

definition GetImage ::
  "lib \<Rightarrow> ImageService \<Rightarrow> string \<Rightarrow> GetImageOpts \<Rightarrow> image option \<times> error option \<times> call list" where
  "GetImage L i refOrID options = GetImage_deferred L i refOrID options (GetImage_lookup L i refOrID)"

section \<open>The primitives of the platform library, as the specification describes them\<close>

text \<open>
  Modelled from the spec: \<^verbatim>\<open>platforms.Only\<close> is not part of the sources at hand. The
  specification gives its semantics: two specifications match if operating system and
  architecture match exactly and, if the desired variant is set, the candidate's variant is
  compatible with it. The compatibility of variants is left to the library; it is the
  parameter \<open>vcompat\<close>.
\<close>

definition spec_Only :: "(string \<Rightarrow> string \<Rightarrow> bool) \<Rightarrow> platform \<Rightarrow> platform \<Rightarrow> bool" where
  "spec_Only vcompat d c =
     (OS d = OS c \<and> Architecture d = Architecture c \<and>
      (if Variant d = [] then True else vcompat (Variant d) (Variant c)))"

text \<open>
  Modelled from the spec: \<^verbatim>\<open>platforms.Normalize\<close> is not part of the sources at hand. The
  specification says that normalizing a specification without a variant assigns it an
  implied default variant; which one is the parameter \<open>dflt\<close>.
\<close>

definition spec_Normalize :: "(platform \<Rightarrow> string) \<Rightarrow> platform \<Rightarrow> platform" where
  "spec_Normalize dflt p = (if Variant p = [] then p\<lparr>Variant := dflt p\<rparr> else p)"

section \<open>What the specification says the scanner finds\<close>

text \<open>
  The specification's reading of a successful scan, written from its words: some
  content-typed lease resource parses as a manifest list with an entry of a recognized
  media type whose platform the exact matcher accepts and whose referenced manifest parses
  with a config digest equal to the image's identity digest. Each blob is parsed on its
  own, into a fresh value.
\<close>

definition spec_entry_matches :: "lib \<Rightarrow> ImageService \<Rightarrow> image \<Rightarrow> platform \<Rightarrow> descriptor \<Rightarrow> bool" where
  "spec_entry_matches L i img p md =
     ((MediaType md = MediaTypeImageManifest L \<or> MediaType md = MediaTypeDockerSchema2Manifest L) \<and>
      platforms_Only L p (Platform md) \<and>
      (case content_ReaderAt i (Digest md) of
         Inl err \<Rightarrow> False
       | Inr ra \<Rightarrow>
          (case ReadAll (makeRdr ra) of
             (data, Some err) \<Rightarrow> False
           | (data, None) \<Rightarrow>
              (case json_Unmarshal_manifest L data zero_manifest of
                 (m', err) \<Rightarrow> \<not> err \<and> Digest (Config m') = image_ID img))))"

definition spec_resource_matches :: "lib \<Rightarrow> ImageService \<Rightarrow> image \<Rightarrow> platform \<Rightarrow> resource \<Rightarrow> bool" where
  "spec_resource_matches L i img p r =
     (resource_Type r = ''content'' \<and>
      (case content_ReaderAt i (resource_ID r) of
         Inl err \<Rightarrow> False
       | Inr ra \<Rightarrow>
          (case ReadAll (makeRdr ra) of
             (data, Some err) \<Rightarrow> False
           | (data, None) \<Rightarrow>
              (case json_Unmarshal_manifestList L data zero_manifestList of
                 (ml', err) \<Rightarrow> \<not> err \<and> list_ex (spec_entry_matches L i img p) (Manifests ml')))))"

definition spec_FindMatchingManifest :: "lib \<Rightarrow> ImageService \<Rightarrow> image \<Rightarrow> platform \<Rightarrow> bool" where
  "spec_FindMatchingManifest L i img p =
     (case leases_ListResources i (imageKey L (image_ID img)) of
        Inl err \<Rightarrow> False
      | Inr ls \<Rightarrow> list_ex (spec_resource_matches L i img p) ls)"


section \<open>A small image store to run the definitions on\<close>

definition mk_platform :: "string \<Rightarrow> string \<Rightarrow> string \<Rightarrow> platform" where
  "mk_platform os arch v = \<lparr>Architecture = arch, OS = os, Variant = v\<rparr>"

definition demo_default_variant :: "platform \<Rightarrow> string" where
  "demo_default_variant p =
     (if Architecture p = ''arm'' then ''v7'' else if Architecture p = ''arm64'' then ''v8'' else [])"

definition demo_FormatAll :: "platform \<Rightarrow> string" where
  "demo_FormatAll p =
     OS p @ ''/'' @ Architecture p @ (if Variant p = [] then [] else ''/'' @ Variant p)"

definition oci_manifest :: string where
  "oci_manifest = ''application/vnd.oci.image.manifest.v1+json''"

definition docker_manifest :: string where
  "docker_manifest = ''application/vnd.docker.distribution.manifest.v2+json''"

definition docker_schema1_manifest :: string where
  "docker_schema1_manifest = ''application/vnd.docker.distribution.manifest.v1+json''"

definition demo_entry :: "string \<Rightarrow> digest \<Rightarrow> descriptor" where
  "demo_entry mt d = \<lparr>MediaType = mt, Digest = d, Platform = mk_platform ''linux'' ''arm'' ''v7''\<rparr>"

text \<open>
  The decoders are given by their effect on a handful of blobs, named by what they hold:
  \<^item> \<open>index-good\<close>: a manifest list with one OCI manifest entry for linux/arm/v7;
  \<^item> \<open>index-schema1\<close>: the same list whose entry carries the media type of a Docker
    schema 1 manifest;
  \<^item> \<open>index-stale\<close>: a manifest list with two OCI manifest entries for linux/arm/v7;
  \<^item> \<open>{}\<close>: the empty JSON object, which sets no field of the value decoded into;
  \<^item> \<open>manifest-aa\<close>: a manifest whose config digest is \<open>sha256:aa\<close>;
  \<^item> \<open>manifest-aa-badsize\<close>: the object
    \<^verbatim>\<open>{"config":{"digest":"sha256:aa","size":"x"}}\<close>, for which \<^verbatim>\<open>json.Unmarshal\<close>
    stores the digest, skips the ill-typed size and returns an \<^verbatim>\<open>UnmarshalTypeError\<close>;
  \<^item> anything else is not JSON: an error, and the value is left as it was.
\<close>

definition demo_Unmarshal_manifestList :: "bytes \<Rightarrow> manifestList \<Rightarrow> manifestList \<times> bool" where
  "demo_Unmarshal_manifestList data ml =
     (if data = ''index-good'' then (ml\<lparr>Manifests := [demo_entry oci_manifest ''sha256:m1'']\<rparr>, False)
      else if data = ''index-schema1'' then
        (ml\<lparr>Manifests := [demo_entry docker_schema1_manifest ''sha256:m1'']\<rparr>, False)
      else if data = ''index-stale'' then
        (ml\<lparr>Manifests := [demo_entry oci_manifest ''sha256:half'',
                            demo_entry oci_manifest ''sha256:empty'']\<rparr>, False)
      else if data = ''{}'' then (ml, False)
      else (ml, True))"

definition demo_Unmarshal_manifest :: "bytes \<Rightarrow> manifest \<Rightarrow> manifest \<times> bool" where
  "demo_Unmarshal_manifest data m =
     (if data = ''manifest-aa'' then (m\<lparr>Config := (Config m)\<lparr>Digest := ''sha256:aa''\<rparr>\<rparr>, False)
      else if data = ''manifest-aa-badsize'' then
        (m\<lparr>Config := (Config m)\<lparr>Digest := ''sha256:aa''\<rparr>\<rparr>, True)
      else if data = ''{}'' then (m, False)
      else (m, True))"

definition demo_lib :: lib where
  "demo_lib =
     \<lparr>platforms_Only = spec_Only (=),
      platforms_Normalize = spec_Normalize demo_default_variant,
      platforms_FormatAll = demo_FormatAll,
      json_Unmarshal_manifestList = demo_Unmarshal_manifestList,
      json_Unmarshal_manifest = demo_Unmarshal_manifest,
      reference_ParseAnyReference =
        (\<lambda>s. if s = ''busybox''
             then Inr \<lparr>Named = Some ''docker.io/library/busybox'', Digested = None\<rparr>
             else Inl ''invalid reference format''),
      reference_ParseNamed = (\<lambda>s. None),
      reference_FamiliarString = (\<lambda>s. s),
      imageKey = (\<lambda>s. ''moby-image-'' @ s),
      MediaTypeImageManifest = oci_manifest,
      MediaTypeDockerSchema2Manifest = docker_manifest\<rparr>"

definition blob_reader :: "bytes \<Rightarrow> readerAt" where
  "blob_reader b = \<lparr>ra_data = b, Size = length b, ra_err = None\<rparr>"

definition demo_content :: "digest \<Rightarrow> cerror + readerAt" where
  "demo_content d =
     (if d = ''sha256:good'' then Inr (blob_reader ''index-good'')
      else if d = ''sha256:schema1'' then Inr (blob_reader ''index-schema1'')
      else if d = ''sha256:stale'' then Inr (blob_reader ''index-stale'')
      else if d = ''sha256:m1'' then Inr (blob_reader ''manifest-aa'')
      else if d = ''sha256:half'' then Inr (blob_reader ''manifest-aa-badsize'')
      else if d = ''sha256:empty'' then Inr (blob_reader ''{}'')
      else if d = ''sha256:junk'' then Inr (blob_reader ''junk'')
      else if d = ''sha256:torn'' then
        Inr \<lparr>ra_data = ''index-'', Size = 10, ra_err = Some (ErrOther ''unexpected EOF'')\<rparr>
      else if d = ''sha256:broken'' then Inl (ErrOther ''input/output error'')
      else Inl (ErrNotFound ''content not found''))"

definition demo_image :: image where
  "demo_image =
     \<lparr>image_ID = ''sha256:aa'', image_OS = ''linux'', image_Architecture = ''amd64'',
      image_Variant = []\<rparr>"

definition demo_service :: "(cerror + resource list) \<Rightarrow> ImageService" where
  "demo_service ls =
     \<lparr>leases_ListResources =
        (\<lambda>k. if k = ''moby-image-sha256:aa'' then ls else Inl (ErrNotFound ''lease not found'')),
      content_ReaderAt = demo_content,
      imageStore_Get = (\<lambda>d. if d = ''sha256:aa'' then Some demo_image else None),
      imageStore_Search = (\<lambda>s. None),
      referenceStore_Get =
        (\<lambda>n. if n = ''docker.io/library/busybox'' then Some ''sha256:aa'' else None)\<rparr>"

definition content_resource :: "string \<Rightarrow> resource" where
  "content_resource d = \<lparr>resource_ID = d, resource_Type = ''content''\<rparr>"

section \<open>Evaluation rules for the example data\<close>

lemmas demo_defs =
  demo_lib_def demo_service_def demo_content_def demo_image_def blob_reader_def
  content_resource_def demo_Unmarshal_manifest_def demo_Unmarshal_manifestList_def
  demo_entry_def mk_platform_def oci_manifest_def docker_manifest_def docker_schema1_manifest_def demo_FormatAll_def
  demo_default_variant_def spec_Only_def spec_Normalize_def

lemmas scan_defs =
  manifestMatchesPlatform_def makeRdr_def NewSectionReader_def zero_manifest_def
  zero_manifestList_def zero_descriptor_def zero_platform_def

section \<open>The fallback matcher\<close>

text \<open>
  Claim C2. For every desired platform \<open>d\<close> and candidate \<open>c\<close>, the fallback matcher accepts
  \<open>c\<close> exactly when the baseline matcher accepts it, or the baseline rejects it, the
  candidate's variant is empty, and the normalized candidate has the operating system and
  the architecture of the normalized desired platform. When the baseline rejects \<open>c\<close> and
  its variant is not empty, the result is false. The baseline matcher and the normalization
  are whatever the platform library provides.
\<close>

theorem fallback_matcher_characterisation:
  "(Match L (OnlyPlatformWithFallback L d) c \<longleftrightarrow>
      (platforms_Only L d c \<or>
       (\<not> platforms_Only L d c \<and> Variant c = [] \<and>
        OS (platforms_Normalize L c) = OS (platforms_Normalize L d) \<and>
        Architecture (platforms_Normalize L c) = Architecture (platforms_Normalize L d))))
   \<and> (\<not> platforms_Only L d c \<and> Variant c \<noteq> [] \<longrightarrow>
        \<not> Match L (OnlyPlatformWithFallback L d) c)"
  by (auto simp add: Match_def OnlyPlatformWithFallback_def Let_def)

theorem fallback_matcher_characterisation_witness:
  "\<not> platforms_Only demo_lib (mk_platform ''linux'' ''arm'' ''v7'') (mk_platform ''linux'' ''arm'' [])
   \<and> Match demo_lib (OnlyPlatformWithFallback demo_lib (mk_platform ''linux'' ''arm'' ''v7''))
        (mk_platform ''linux'' ''arm'' [])
   \<and> \<not> platforms_Only demo_lib (mk_platform ''linux'' ''arm'' ''v7'')
         (mk_platform ''linux'' ''arm'' ''v6'')
   \<and> \<not> Match demo_lib (OnlyPlatformWithFallback demo_lib (mk_platform ''linux'' ''arm'' ''v7''))
         (mk_platform ''linux'' ''arm'' ''v6'')"
  using fallback_matcher_characterisation [where L = demo_lib
          and d = "mk_platform ''linux'' ''arm'' ''v7''" and c = "mk_platform ''linux'' ''arm'' []"]
        fallback_matcher_characterisation [where L = demo_lib
          and d = "mk_platform ''linux'' ''arm'' ''v7''" and c = "mk_platform ''linux'' ''arm'' ''v6''"]
  by (simp add: demo_defs)

text \<open>
  Claim C7. If the desired and the candidate platform differ in operating system or in
  architecture, the fallback matcher rejects the candidate, whatever the variants are. The
  baseline matcher and the normalization are the ones the specification describes: the
  baseline compares operating system and architecture exactly, and normalization only fills
  in a missing variant.
\<close>

theorem fallback_never_waives_os_or_architecture:
  "OS d \<noteq> OS c \<or> Architecture d \<noteq> Architecture c \<Longrightarrow>
   \<not> Match (L\<lparr>platforms_Only := spec_Only vcompat, platforms_Normalize := spec_Normalize dflt\<rparr>)
        (OnlyPlatformWithFallback
           (L\<lparr>platforms_Only := spec_Only vcompat, platforms_Normalize := spec_Normalize dflt\<rparr>) d) c"
  by (auto simp add: Match_def OnlyPlatformWithFallback_def Let_def spec_Only_def
        spec_Normalize_def)

theorem fallback_never_waives_os_or_architecture_witness:
  "\<not> Match (demo_lib\<lparr>platforms_Only := spec_Only (=),
                      platforms_Normalize := spec_Normalize demo_default_variant\<rparr>)
        (OnlyPlatformWithFallback
           (demo_lib\<lparr>platforms_Only := spec_Only (=),
                      platforms_Normalize := spec_Normalize demo_default_variant\<rparr>)
           (mk_platform ''linux'' ''arm64'' ''v8''))
        (mk_platform ''linux'' ''arm'' [])"
  using fallback_never_waives_os_or_architecture [where d = "mk_platform ''linux'' ''arm64'' ''v8''"
          and c = "mk_platform ''linux'' ''arm'' []" and L = demo_lib and vcompat = "(=)"
          and dflt = demo_default_variant]
  by (simp add: mk_platform_def)

section \<open>The lease registry reports not found\<close>

text \<open>
  Claim C5. If the lease registry reports not found for the image's lease, the scanner
  returns found = false and no error; the only call made is the enumeration itself.
\<close>

theorem lease_not_found_is_no_error:
  "leases_ListResources i (imageKey L (image_ID img)) = Inl err \<Longrightarrow> IsNotFound err \<Longrightarrow>
   manifestMatchesPlatform L i img p = (False, None, [ListResources (imageKey L (image_ID img))])"
  by (simp add: manifestMatchesPlatform_def Let_def)

theorem lease_not_found_is_no_error_witness:
  "manifestMatchesPlatform demo_lib (demo_service (Inl (ErrNotFound ''lease not found'')))
     demo_image (mk_platform ''linux'' ''arm'' ''v7'')
   = (False, None, [ListResources ''moby-image-sha256:aa''])"
  using lease_not_found_is_no_error [where i = "demo_service (Inl (ErrNotFound ''lease not found''))"
          and L = demo_lib and img = demo_image and err = "ErrNotFound ''lease not found''"
          and p = "mk_platform ''linux'' ''arm'' ''v7''"]
  by (simp add: demo_defs)

section \<open>Resolution without a requested platform\<close>

lemma GetImage_lookup_frame:
  "GetImage_lookup (L\<lparr>platforms_Only := only', platforms_Normalize := norm'\<rparr>)
     (i\<lparr>leases_ListResources := ls', content_ReaderAt := ra'\<rparr>) refOrID
   = GetImage_lookup L i refOrID"
  by (simp add: GetImage_lookup_def split: sum.splits option.splits)

lemma demo_lookup:
  "GetImage_lookup demo_lib (demo_service ls) ''busybox'' = (Some demo_image, None)"
  by (simp add: GetImage_lookup_def demo_lib_def demo_service_def)

text \<open>
  Claim C6. If the reference resolves to an image record and no platform is requested,
  \<^verbatim>\<open>GetImage\<close> returns that record and no error, and makes no call to the lease registry or
  to the content store. The result is the same whatever the platform matcher, the
  normalization, the lease registry and the content store are, and whatever platform
  fields the record carries.
\<close>

theorem no_platform_no_verification:
  "GetImage_lookup L i refOrID = (Some img, None) \<Longrightarrow> opts_Platform options = None \<Longrightarrow>
   GetImage (L\<lparr>platforms_Only := only', platforms_Normalize := norm'\<rparr>)
     (i\<lparr>leases_ListResources := ls', content_ReaderAt := ra'\<rparr>) refOrID options
   = (Some img, None, [])"
  by (simp add: GetImage_def GetImage_deferred_def GetImage_lookup_frame)

theorem no_platform_no_verification_witness:
  "GetImage (demo_lib\<lparr>platforms_Only := (\<lambda>d c. False), platforms_Normalize := (\<lambda>p. p)\<rparr>)
     ((demo_service (Inr [content_resource ''sha256:good'']))
        \<lparr>leases_ListResources := (\<lambda>k. Inl (ErrOther ''registry down'')),
          content_ReaderAt := (\<lambda>d. Inl (ErrOther ''store down''))\<rparr>)
     ''busybox'' \<lparr>opts_Platform = None\<rparr>
   = (Some demo_image, None, [])"
  using no_platform_no_verification [where L = demo_lib
          and i = "demo_service (Inr [content_resource ''sha256:good''])"
          and refOrID = "''busybox''" and img = demo_image
          and options = "\<lparr>opts_Platform = None\<rparr>"
          and only' = "\<lambda>d c. False" and norm' = "\<lambda>p. p"
          and ls' = "\<lambda>k. Inl (ErrOther ''registry down'')"
          and ra' = "\<lambda>d. Inl (ErrOther ''store down'')"]
  by (simp add: demo_lookup)

section \<open>The platform mismatch error\<close>

text \<open>
  Claim C1. If the reference resolves to an image record, a platform \<open>P\<close> is requested, the
  fallback matcher rejects the record's platform fields for \<open>P\<close>, and the scanner returns
  found = false without an error, then \<^verbatim>\<open>GetImage\<close> returns a \<^verbatim>\<open>NotFound\<close> error whose
  message contains the formatted requested platform and the formatted recorded platform.
\<close>

theorem platform_mismatch_is_NotFound:
  assumes "GetImage_lookup L i refOrID = (Some img, None)"
    and "opts_Platform options = Some P"
    and "\<not> Match L (OnlyPlatformWithFallback L P)
           \<lparr>Architecture = image_Architecture img, OS = image_OS img,
              Variant = image_Variant img\<rparr>"
    and "manifestMatchesPlatform L i img P = (False, None, cs)"
  shows "\<exists>msg. fst (snd (GetImage L i refOrID options)) = Some (NotFound msg)
           \<and> sublist (platforms_FormatAll L P) msg
           \<and> sublist (platforms_FormatAll L
                \<lparr>Architecture = image_Architecture img, OS = image_OS img,
                   Variant = image_Variant img\<rparr>) msg"
proof -
  let ?ip = "\<lparr>Architecture = image_Architecture img, OS = image_OS img,
               Variant = image_Variant img\<rparr>"
  let ?name = "case reference_ParseNamed L refOrID of
                 Some ref \<Rightarrow> reference_FamiliarString L ref | None \<Rightarrow> refOrID"
  let ?msg = "mismatch_message ?name (platforms_FormatAll L ?ip) (platforms_FormatAll L P)"
  have r: "fst (snd (GetImage L i refOrID options)) = Some (NotFound ?msg)"
    using assms by (simp add: GetImage_def GetImage_deferred_def Let_def)
  have a: "sublist (platforms_FormatAll L P) ?msg"
    unfolding mismatch_message_def sublist_def by (metis append.assoc)
  have b: "sublist (platforms_FormatAll L ?ip) ?msg"
    unfolding mismatch_message_def sublist_def by (metis append.assoc)
  from r a b show ?thesis by blast
qed

lemma demo_scan_lease_not_found:
  "manifestMatchesPlatform demo_lib (demo_service (Inl (ErrNotFound ''lease not found'')))
     demo_image (mk_platform ''linux'' ''arm'' ''v7'')
   = (False, None, [ListResources ''moby-image-sha256:aa''])"
  by (simp add: demo_defs scan_defs)

theorem platform_mismatch_is_NotFound_witness:
  "\<exists>msg. fst (snd (GetImage demo_lib (demo_service (Inl (ErrNotFound ''lease not found'')))
                     ''busybox'' \<lparr>opts_Platform = Some (mk_platform ''linux'' ''arm'' ''v7'')\<rparr>))
            = Some (NotFound msg)
         \<and> sublist ''linux/arm/v7'' msg \<and> sublist ''linux/amd64'' msg"
  using platform_mismatch_is_NotFound [where L = demo_lib
          and i = "demo_service (Inl (ErrNotFound ''lease not found''))"
          and refOrID = "''busybox''" and img = demo_image
          and options = "\<lparr>opts_Platform = Some (mk_platform ''linux'' ''arm'' ''v7'')\<rparr>"
          and P = "mk_platform ''linux'' ''arm'' ''v7''"
          and cs = "[ListResources ''moby-image-sha256:aa'']"]
  by (simp add: demo_lookup demo_scan_lease_not_found)
     (simp add: demo_defs Match_def OnlyPlatformWithFallback_def)

section \<open>Bounded reads\<close>












section \<open>Steps of the scan\<close>

lemma reset_manifestList: "(x::manifestList)\<lparr>Manifests := []\<rparr> = \<lparr>Manifests = []\<rparr>"
  by simp

lemma rebuild_platform:
  "\<lparr>Architecture = Architecture (q::platform), OS = OS q, Variant = Variant q\<rparr> = q"
  by simp

lemma scan_manifests_skip_media:
  "MediaType md \<noteq> MediaTypeImageManifest L \<Longrightarrow>
   MediaType md \<noteq> MediaTypeDockerSchema2Manifest L \<Longrightarrow>
   scan_manifests L i img cmp (md # mds) s = scan_manifests L i img cmp mds s"
  by simp

lemma scan_manifests_skip_platform:
  "\<not> cmp (Platform md) \<Longrightarrow>
   scan_manifests L i img cmp (md # mds) s = scan_manifests L i img cmp mds s"
  by (simp add: Let_def rebuild_platform)

lemma scan_manifests_entry_step:
  "MediaType md = MediaTypeImageManifest L \<or> MediaType md = MediaTypeDockerSchema2Manifest L \<Longrightarrow>
   cmp (Platform md) \<Longrightarrow>
   scan_manifests L i img cmp (md # mds) s =
     (case content_ReaderAt i (Digest md) of
        Inl err \<Rightarrow>
          scan_manifests L i img cmp mds (s\<lparr>st_calls := st_calls s @ [ReaderAt (Digest md)]\<rparr>)
      | Inr ra \<Rightarrow>
         (case ReadAll (makeRdr ra) of
            (data, Some err) \<Rightarrow>
              scan_manifests L i img cmp mds (s\<lparr>st_calls := st_calls s @ [ReaderAt (Digest md)]\<rparr>)
          | (data, None) \<Rightarrow>
             (case json_Unmarshal_manifest L data (st_m s) of
                (m', err) \<Rightarrow>
                  if err then scan_manifests L i img cmp mds
                                (s\<lparr>st_calls := st_calls s @ [ReaderAt (Digest md)], st_m := m'\<rparr>)
                  else if Digest (Config m') = image_ID img
                       then (True, s\<lparr>st_calls := st_calls s @ [ReaderAt (Digest md)], st_m := m'\<rparr>)
                       else scan_manifests L i img cmp mds
                              (s\<lparr>st_calls := st_calls s @ [ReaderAt (Digest md)], st_m := m'\<rparr>))))"
  by (erule disjE)
     (simp_all add: Let_def rebuild_platform split: sum.splits prod.splits option.splits)

lemma scan_resources_skip_type:
  "resource_Type r \<noteq> ''content'' \<Longrightarrow>
   scan_resources L i img cmp (r # rs) s = scan_resources L i img cmp rs s"
  by simp

lemma scan_resources_skip_unreadable:
  "resource_Type r = ''content'' \<Longrightarrow> content_ReaderAt i (resource_ID r) = Inl err \<Longrightarrow>
   scan_resources L i img cmp (r # rs) s =
   scan_resources L i img cmp rs (s\<lparr>st_calls := st_calls s @ [ReaderAt (resource_ID r)]\<rparr>)"
  by simp

lemma scan_resources_skip_read_error:
  "resource_Type r = ''content'' \<Longrightarrow> content_ReaderAt i (resource_ID r) = Inr ra \<Longrightarrow>
   ReadAll (makeRdr ra) = (data, Some err) \<Longrightarrow>
   scan_resources L i img cmp (r # rs) s =
   scan_resources L i img cmp rs (s\<lparr>st_calls := st_calls s @ [ReaderAt (resource_ID r)]\<rparr>)"
  by simp

lemma scan_resources_content_step:
  "resource_Type r = ''content'' \<Longrightarrow> content_ReaderAt i (resource_ID r) = Inr ra \<Longrightarrow>
   ReadAll (makeRdr ra) = (data, None) \<Longrightarrow>
   json_Unmarshal_manifestList L data \<lparr>Manifests = []\<rparr> = (ml', err) \<Longrightarrow>
   scan_resources L i img cmp (r # rs) s =
     (if err
      then scan_resources L i img cmp rs
             (s\<lparr>st_calls := st_calls s @ [ReaderAt (resource_ID r)], st_ml := ml'\<rparr>)
      else (case scan_manifests L i img cmp (Manifests ml')
                   (s\<lparr>st_calls := st_calls s @ [ReaderAt (resource_ID r)], st_ml := ml'\<rparr>) of
              (True, s4) \<Rightarrow> (True, s4)
            | (False, s4) \<Rightarrow> scan_resources L i img cmp rs s4))"
  by (simp add: Let_def reset_manifestList)

section \<open>A corroborating entry is found wherever it sits\<close>

lemma scan_manifests_finds:
  assumes "md \<in> set mds"
    and "MediaType md = MediaTypeImageManifest L \<or> MediaType md = MediaTypeDockerSchema2Manifest L"
    and "cmp (Platform md)"
    and "content_ReaderAt i (Digest md) = Inr ra"
    and "ReadAll (makeRdr ra) = (data, None)"
    and "\<forall>m. \<not> snd (json_Unmarshal_manifest L data m)
             \<and> Digest (Config (fst (json_Unmarshal_manifest L data m))) = image_ID img"
  shows "fst (scan_manifests L i img cmp mds s)"
  using assms(1)
proof (induction mds arbitrary: s)
  case Nil
  then show ?case by simp
next
  case (Cons x xs)
  show ?case
  proof (cases "x = md")
    case True
    obtain m' e where d: "json_Unmarshal_manifest L data (st_m s) = (m', e)"
      by (cases "json_Unmarshal_manifest L data (st_m s)")
    have "\<not> e" "Digest (Config m') = image_ID img"
      using assms(6) [rule_format, of "st_m s"] d by simp_all
    then show ?thesis
      using True d assms(4,5)
      by (simp add: scan_manifests_entry_step [where cmp = cmp, OF assms(2,3)]
            del: scan_manifests.simps)
  next
    case False
    then have mem: "md \<in> set xs" using Cons.prems by simp
    show ?thesis
    proof (cases "(MediaType x = MediaTypeImageManifest L
                   \<or> MediaType x = MediaTypeDockerSchema2Manifest L) \<and> cmp (Platform x)")
      case True
      then show ?thesis
        by (simp add: scan_manifests_entry_step Cons.IH [OF mem] del: scan_manifests.simps
              split: sum.splits prod.splits option.splits)
    next
      case False
      then show ?thesis
        using Cons.IH [OF mem] scan_manifests_skip_media scan_manifests_skip_platform
        by metis
    qed
  qed
qed

lemma scan_resources_finds:
  assumes "r \<in> set rs"
    and "resource_Type r = ''content''"
    and "content_ReaderAt i (resource_ID r) = Inr ra"
    and "ReadAll (makeRdr ra) = (data, None)"
    and "json_Unmarshal_manifestList L data \<lparr>Manifests = []\<rparr> = (ml', False)"
    and "\<And>s'. fst (scan_manifests L i img cmp (Manifests ml') s')"
  shows "fst (scan_resources L i img cmp rs s)"
  using assms(1)
proof (induction rs arbitrary: s)
  case Nil
  then show ?case by simp
next
  case (Cons x xs)
  show ?case
  proof (cases "x = r")
    case True
    show ?thesis
      unfolding True scan_resources_content_step [OF assms(2-5)]
      using assms(6) by (simp split: prod.splits bool.splits) (metis fst_conv)
  next
    case False
    then have mem: "r \<in> set xs" using Cons.prems by simp
    note IH = Cons.IH [OF mem]
    show ?thesis
    proof (cases "resource_Type x = ''content''")
      case False
      then show ?thesis using IH by simp
    next
      case True
      show ?thesis
      proof (cases "content_ReaderAt i (resource_ID x)")
        case (Inl e)
        show ?thesis unfolding scan_resources_skip_unreadable [OF True Inl] by (rule IH)
      next
        case (Inr rx)
        obtain dx ex where rd: "ReadAll (makeRdr rx) = (dx, ex)"
          by (cases "ReadAll (makeRdr rx)")
        show ?thesis
        proof (cases ex)
          case (Some err)
          show ?thesis
            unfolding scan_resources_skip_read_error [OF True Inr rd [unfolded Some]]
            by (rule IH)
        next
          case None
          obtain mlx errx where
            dec: "json_Unmarshal_manifestList L dx \<lparr>Manifests = []\<rparr> = (mlx, errx)"
            by (cases "json_Unmarshal_manifestList L dx \<lparr>Manifests = []\<rparr>")
          show ?thesis
            unfolding scan_resources_content_step [OF True Inr rd [unfolded None] dec]
            using IH by (simp split: prod.splits bool.splits)
        qed
      qed
    qed
  qed
qed

lemma manifestMatchesPlatform_no_error:
  "leases_ListResources i (imageKey L (image_ID img)) = Inr ls \<Longrightarrow>
   manifestMatchesPlatform L i img p =
     (fst (scan_resources L i img (platforms_Only L p) ls
             \<lparr>st_ml = zero_manifestList, st_m = zero_manifest,
                st_calls = [ListResources (imageKey L (image_ID img))]\<rparr>),
      None,
      st_calls (snd (scan_resources L i img (platforms_Only L p) ls
             \<lparr>st_ml = zero_manifestList, st_m = zero_manifest,
                st_calls = [ListResources (imageKey L (image_ID img))]\<rparr>)))"
  by (simp add: manifestMatchesPlatform_def Let_def split: prod.splits)

text \<open>
  Claim C8, as the code has it. Let the lease registry return a list of resources in which
  some content-typed resource is readable and decodes without error, from its first
  1,000,000 bytes and into the emptied list, to a manifest list with an entry
  \<^item> whose media type is the OCI image manifest type or the Docker schema 2 manifest type,
  \<^item> whose platform the exact matcher accepts for the desired platform, and
  \<^item> whose referenced manifest is readable and decodes without error to a config digest
    equal to the image's identity digest, whatever was decoded before.

  Then the scanner returns found = true and no error. The list is arbitrary apart from
  containing that resource: its position in the list and the other resources, malformed
  or not, do not matter.
\<close>

theorem corroborating_entry_is_found:
  assumes "leases_ListResources i (imageKey L (image_ID img)) = Inr ls"
    and "r \<in> set ls"
    and "resource_Type r = ''content''"
    and "content_ReaderAt i (resource_ID r) = Inr ra"
    and "ReadAll (makeRdr ra) = (data, None)"
    and "json_Unmarshal_manifestList L data \<lparr>Manifests = []\<rparr> = (ml', False)"
    and "md \<in> set (Manifests ml')"
    and "MediaType md = MediaTypeImageManifest L \<or> MediaType md = MediaTypeDockerSchema2Manifest L"
    and "platforms_Only L p (Platform md)"
    and "content_ReaderAt i (Digest md) = Inr ra'"
    and "ReadAll (makeRdr ra') = (data', None)"
    and "\<forall>m. \<not> snd (json_Unmarshal_manifest L data' m)
             \<and> Digest (Config (fst (json_Unmarshal_manifest L data' m))) = image_ID img"
  shows "fst (manifestMatchesPlatform L i img p)
         \<and> fst (snd (manifestMatchesPlatform L i img p)) = None"
proof -
  have inner: "fst (scan_manifests L i img (platforms_Only L p) (Manifests ml') s')" for s'
    by (rule scan_manifests_finds [where cmp = "platforms_Only L p", OF assms(7,8,9,10,11,12)])
  have "fst (scan_resources L i img (platforms_Only L p) ls s)" for s
    by (rule scan_resources_finds [OF assms(2,3,4,5,6) inner])
  then show ?thesis
    by (simp add: manifestMatchesPlatform_no_error [OF assms(1)])
qed

theorem corroborating_entry_is_found_witness:
  "fst (manifestMatchesPlatform demo_lib
          (demo_service (Inr [content_resource ''sha256:junk'', content_resource ''sha256:good'']))
          demo_image (mk_platform ''linux'' ''arm'' ''v7''))
   \<and> fst (manifestMatchesPlatform demo_lib
          (demo_service (Inr [content_resource ''sha256:good'', content_resource ''sha256:torn'',
                              content_resource ''sha256:junk'']))
          demo_image (mk_platform ''linux'' ''arm'' ''v7''))"
  using corroborating_entry_is_found [where L = demo_lib
      and i = "demo_service (Inr [content_resource ''sha256:junk'', content_resource ''sha256:good''])"
      and img = demo_image and p = "mk_platform ''linux'' ''arm'' ''v7''"
      and ls = "[content_resource ''sha256:junk'', content_resource ''sha256:good'']"
      and r = "content_resource ''sha256:good''" and ra = "blob_reader ''index-good''"
      and data = "''index-good''"
      and ml' = "\<lparr>Manifests = [demo_entry oci_manifest ''sha256:m1'']\<rparr>"
      and md = "demo_entry oci_manifest ''sha256:m1''" and ra' = "blob_reader ''manifest-aa''"
      and data' = "''manifest-aa''"]
    corroborating_entry_is_found [where L = demo_lib
      and i = "demo_service (Inr [content_resource ''sha256:good'', content_resource ''sha256:torn'',
                                  content_resource ''sha256:junk''])"
      and img = demo_image and p = "mk_platform ''linux'' ''arm'' ''v7''"
      and ls = "[content_resource ''sha256:good'', content_resource ''sha256:torn'',
                 content_resource ''sha256:junk'']"
      and r = "content_resource ''sha256:good''" and ra = "blob_reader ''index-good''"
      and data = "''index-good''"
      and ml' = "\<lparr>Manifests = [demo_entry oci_manifest ''sha256:m1'']\<rparr>"
      and md = "demo_entry oci_manifest ''sha256:m1''" and ra' = "blob_reader ''manifest-aa''"
      and data' = "''manifest-aa''"]
  by (simp add: demo_defs makeRdr_def NewSectionReader_def)

text \<open>
  Claim C8, as stated, fails: the lease set below holds one manifest list with exactly one
  entry; the entry's platform is the desired platform, the exact matcher accepts it, and
  the manifest it refers to has the image's identity digest as its config digest. The
  entry's media type is that of a schema 1 manifest, so the scan passes it over and
  returns found = false.
\<close>

theorem entry_of_other_media_type_is_not_found:
  "Manifests (fst (demo_Unmarshal_manifestList ''index-schema1'' zero_manifestList))
     = [demo_entry docker_schema1_manifest ''sha256:m1'']
   \<and> Platform (demo_entry docker_schema1_manifest ''sha256:m1'')
       = mk_platform ''linux'' ''arm'' ''v7''
   \<and> platforms_Only demo_lib (mk_platform ''linux'' ''arm'' ''v7'')
        (Platform (demo_entry docker_schema1_manifest ''sha256:m1''))
   \<and> content_ReaderAt (demo_service (Inr [content_resource ''sha256:schema1''])) ''sha256:m1''
       = Inr (blob_reader ''manifest-aa'')
   \<and> Digest (Config (fst (demo_Unmarshal_manifest ''manifest-aa'' zero_manifest)))
       = image_ID demo_image
   \<and> \<not> fst (manifestMatchesPlatform demo_lib
              (demo_service (Inr [content_resource ''sha256:schema1'']))
              demo_image (mk_platform ''linux'' ''arm'' ''v7''))"
  by (simp add: demo_defs scan_defs)

section \<open>The manifest variable is never reset\<close>

text \<open>
  Claim C3 says that the scanner returns found = true exactly when some content-typed lease
  resource parses as a manifest list with an entry of a recognized media type whose
  platform the exact matcher accepts and whose referenced manifest parses with a config
  digest equal to the image's identity digest. The code clears \<^verbatim>\<open>ml.Manifests\<close> before
  each decoding but never clears \<^verbatim>\<open>m\<close>. In the lease set below the manifest list has two
  matching entries: the first refers to a blob whose decoding stores the digest
  \<open>sha256:aa\<close> and then fails, the second to the empty object, which decodes without error
  and stores nothing. No referenced manifest parses with the digest of the image, and the
  scanner returns found = true on the digest left behind by the failed decoding.
\<close>

theorem stale_manifest_digest_is_accepted:
  "fst (manifestMatchesPlatform demo_lib (demo_service (Inr [content_resource ''sha256:stale'']))
          demo_image (mk_platform ''linux'' ''arm'' ''v7''))
   \<and> \<not> spec_FindMatchingManifest demo_lib
          (demo_service (Inr [content_resource ''sha256:stale'']))
          demo_image (mk_platform ''linux'' ''arm'' ''v7'')"
  by (simp add: demo_defs scan_defs spec_FindMatchingManifest_def spec_resource_matches_def
        spec_entry_matches_def)

section \<open>The manifest list variable is reset\<close>

lemma scan_resources_agree:
  "st_m s = st_m t \<Longrightarrow> st_calls s = st_calls t \<Longrightarrow>
   fst (scan_resources L i img cmp rs s) = fst (scan_resources L i img cmp rs t)
   \<and> st_m (snd (scan_resources L i img cmp rs s)) = st_m (snd (scan_resources L i img cmp rs t))
   \<and> st_calls (snd (scan_resources L i img cmp rs s))
       = st_calls (snd (scan_resources L i img cmp rs t))"
proof (induction rs arbitrary: s t)
  case Nil
  then show ?case by simp
next
  case (Cons r rs)
  show ?case
  proof (cases "resource_Type r = ''content''")
    case False
    then show ?thesis using Cons.IH [OF Cons.prems] by simp
  next
    case True
    let ?s1 = "s\<lparr>st_calls := st_calls s @ [ReaderAt (resource_ID r)]\<rparr>"
    let ?t1 = "t\<lparr>st_calls := st_calls t @ [ReaderAt (resource_ID r)]\<rparr>"
    have a1: "st_m ?s1 = st_m ?t1" "st_calls ?s1 = st_calls ?t1"
      using Cons.prems by simp_all
    show ?thesis
    proof (cases "content_ReaderAt i (resource_ID r)")
      case (Inl e)
      show ?thesis
        unfolding scan_resources_skip_unreadable [OF True Inl] by (rule Cons.IH [OF a1])
    next
      case (Inr ra)
      obtain data e where rd: "ReadAll (makeRdr ra) = (data, e)"
        by (cases "ReadAll (makeRdr ra)")
      show ?thesis
      proof (cases e)
        case (Some err)
        show ?thesis
          unfolding scan_resources_skip_read_error [OF True Inr rd [unfolded Some]]
          by (rule Cons.IH [OF a1])
      next
        case None
        obtain ml' err where
          dec: "json_Unmarshal_manifestList L data \<lparr>Manifests = []\<rparr> = (ml', err)"
          by (cases "json_Unmarshal_manifestList L data \<lparr>Manifests = []\<rparr>")
        have eq: "s\<lparr>st_calls := st_calls s @ [ReaderAt (resource_ID r)], st_ml := ml'\<rparr>
                = t\<lparr>st_calls := st_calls t @ [ReaderAt (resource_ID r)], st_ml := ml'\<rparr>"
          using Cons.prems by simp
        have ss: "scan_resources L i img cmp (r # rs) s = scan_resources L i img cmp (r # rs) t"
          unfolding scan_resources_content_step [OF True Inr rd [unfolded None] dec] eq ..
        show ?thesis unfolding ss by simp
      qed
    qed
  qed
qed

text \<open>
  Claim C10. The entries left in \<^verbatim>\<open>ml\<close> by an earlier resource have no influence on the
  scan of the following resources: whatever \<^verbatim>\<open>ml\<close> holds when the scan of a list of
  resources starts, the result, the calls made and the manifest variable at the end are
  the same. For a content resource whose blob is read, the entries evaluated are those
  that decoding the blob into the emptied list yields. A blob whose decoding succeeds and
  leaves the value as it finds it (valid JSON without a \<^verbatim>\<open>manifests\<close> field) contributes
  no entry: the scan goes on with the next resource after the one read of the blob.
\<close>

theorem manifest_entries_do_not_leak:
  "(fst (scan_resources L i img cmp rs (s\<lparr>st_ml := x\<rparr>)) = fst (scan_resources L i img cmp rs s)
    \<and> st_m (snd (scan_resources L i img cmp rs (s\<lparr>st_ml := x\<rparr>)))
        = st_m (snd (scan_resources L i img cmp rs s))
    \<and> st_calls (snd (scan_resources L i img cmp rs (s\<lparr>st_ml := x\<rparr>)))
        = st_calls (snd (scan_resources L i img cmp rs s)))
   \<and> (resource_Type r = ''content'' \<and> content_ReaderAt i (resource_ID r) = Inr ra
        \<and> ReadAll (makeRdr ra) = (data, None)
        \<and> json_Unmarshal_manifestList L data \<lparr>Manifests = []\<rparr> = (ml', False) \<longrightarrow>
      scan_resources L i img cmp (r # rs) s =
        (case scan_manifests L i img cmp (Manifests ml')
                (s\<lparr>st_calls := st_calls s @ [ReaderAt (resource_ID r)], st_ml := ml'\<rparr>) of
           (True, s4) \<Rightarrow> (True, s4)
         | (False, s4) \<Rightarrow> scan_resources L i img cmp rs s4))
   \<and> (resource_Type r = ''content'' \<and> content_ReaderAt i (resource_ID r) = Inr ra
        \<and> ReadAll (makeRdr ra) = (data, None)
        \<and> (\<forall>y. json_Unmarshal_manifestList L data y = (y, False)) \<longrightarrow>
      scan_resources L i img cmp (r # rs) s =
        scan_resources L i img cmp rs
          (s\<lparr>st_calls := st_calls s @ [ReaderAt (resource_ID r)], st_ml := \<lparr>Manifests = []\<rparr>\<rparr>))"
proof (intro conjI impI)
  have a: "st_m (s\<lparr>st_ml := x\<rparr>) = st_m s" "st_calls (s\<lparr>st_ml := x\<rparr>) = st_calls s"
    by simp_all
  note ag = scan_resources_agree [OF a, of L i img cmp rs]
  show "fst (scan_resources L i img cmp rs (s\<lparr>st_ml := x\<rparr>))
        = fst (scan_resources L i img cmp rs s)"
    using ag by simp
  show "st_m (snd (scan_resources L i img cmp rs (s\<lparr>st_ml := x\<rparr>)))
        = st_m (snd (scan_resources L i img cmp rs s))"
    using ag by simp
  show "st_calls (snd (scan_resources L i img cmp rs (s\<lparr>st_ml := x\<rparr>)))
        = st_calls (snd (scan_resources L i img cmp rs s))"
    using ag by simp
next
  assume h: "resource_Type r = ''content'' \<and> content_ReaderAt i (resource_ID r) = Inr ra
        \<and> ReadAll (makeRdr ra) = (data, None)
        \<and> json_Unmarshal_manifestList L data \<lparr>Manifests = []\<rparr> = (ml', False)"
  show "scan_resources L i img cmp (r # rs) s =
        (case scan_manifests L i img cmp (Manifests ml')
                (s\<lparr>st_calls := st_calls s @ [ReaderAt (resource_ID r)], st_ml := ml'\<rparr>) of
           (True, s4) \<Rightarrow> (True, s4)
         | (False, s4) \<Rightarrow> scan_resources L i img cmp rs s4)"
    using scan_resources_content_step [of r i ra data L ml' False img cmp rs s] h by simp
next
  assume h: "resource_Type r = ''content'' \<and> content_ReaderAt i (resource_ID r) = Inr ra
        \<and> ReadAll (makeRdr ra) = (data, None)
        \<and> (\<forall>y. json_Unmarshal_manifestList L data y = (y, False))"
  then have d: "json_Unmarshal_manifestList L data \<lparr>Manifests = []\<rparr>
                = (\<lparr>Manifests = []\<rparr>, False)"
    by simp
  show "scan_resources L i img cmp (r # rs) s =
        scan_resources L i img cmp rs
          (s\<lparr>st_calls := st_calls s @ [ReaderAt (resource_ID r)], st_ml := \<lparr>Manifests = []\<rparr>\<rparr>)"
    using scan_resources_content_step
            [of r i ra data L "\<lparr>Manifests = []\<rparr>" False img cmp rs s] h d
    by simp
qed

theorem manifest_entries_do_not_leak_witness:
  "scan_resources demo_lib (demo_service (Inr [])) demo_image
     (platforms_Only demo_lib (mk_platform ''linux'' ''arm'' ''v7''))
     [content_resource ''sha256:empty'']
     \<lparr>st_ml = \<lparr>Manifests = [demo_entry oci_manifest ''sha256:m1'']\<rparr>, st_m = zero_manifest,
        st_calls = []\<rparr>
   = (False, \<lparr>st_ml = \<lparr>Manifests = []\<rparr>, st_m = zero_manifest,
               st_calls = [ReaderAt ''sha256:empty'']\<rparr>)
   \<and> scan_resources demo_lib (demo_service (Inr [])) demo_image
     (platforms_Only demo_lib (mk_platform ''linux'' ''arm'' ''v7''))
     [content_resource ''sha256:good'']
     \<lparr>st_ml = \<lparr>Manifests = []\<rparr>, st_m = zero_manifest, st_calls = []\<rparr>
   = (True, \<lparr>st_ml = \<lparr>Manifests = [demo_entry oci_manifest ''sha256:m1'']\<rparr>,
              st_m = \<lparr>Config = zero_descriptor\<lparr>Digest := ''sha256:aa''\<rparr>\<rparr>,
              st_calls = [ReaderAt ''sha256:good'', ReaderAt ''sha256:m1'']\<rparr>)"
  using manifest_entries_do_not_leak [where L = demo_lib and i = "demo_service (Inr [])"
      and img = demo_image and cmp = "platforms_Only demo_lib (mk_platform ''linux'' ''arm'' ''v7'')"
      and rs = "[]" and r = "content_resource ''sha256:empty''" and ra = "blob_reader ''{}''"
      and data = "''{}''" and ml' = "\<lparr>Manifests = []\<rparr>"
      and s = "\<lparr>st_ml = \<lparr>Manifests = [demo_entry oci_manifest ''sha256:m1'']\<rparr>,
                 st_m = zero_manifest, st_calls = []\<rparr>"]
    manifest_entries_do_not_leak [where L = demo_lib and i = "demo_service (Inr [])"
      and img = demo_image and cmp = "platforms_Only demo_lib (mk_platform ''linux'' ''arm'' ''v7'')"
      and rs = "[]" and r = "content_resource ''sha256:good''" and ra = "blob_reader ''index-good''"
      and data = "''index-good''"
      and ml' = "\<lparr>Manifests = [demo_entry oci_manifest ''sha256:m1'']\<rparr>"
      and s = "\<lparr>st_ml = \<lparr>Manifests = []\<rparr>, st_m = zero_manifest, st_calls = []\<rparr>"]
  by (simp add: demo_defs makeRdr_def NewSectionReader_def zero_manifest_def zero_descriptor_def
        zero_platform_def)

section \<open>Failures inside the scan\<close>

lemma manifestMatchesPlatform_lease_error:
  "leases_ListResources i (imageKey L (image_ID img)) = Inl e \<Longrightarrow>
   manifestMatchesPlatform L i img p =
     (False, if IsNotFound e then None else Some e, [ListResources (imageKey L (image_ID img))])"
  by (simp add: manifestMatchesPlatform_def Let_def)

text \<open>
  The error result and the step equations of the two loops at a failure. When the lease
  registry lists the resources, the scanner returns no error, whatever the content store
  and the decoders do; an error of the enumeration is returned as the scanner's error
  unless it is classified not found. At a resource whose reader cannot be opened, whose
  read fails or whose blob does not decode as a manifest list, and at an entry whose
  referenced manifest cannot be opened, cannot be read or does not decode, the loop goes
  on with the remaining candidates, from the state the failure leaves: the recorded call,
  and whatever the failed decoding wrote.
\<close>

lemma scan_failure_steps:
  "(leases_ListResources i (imageKey L (image_ID img)) = Inr ls \<longrightarrow>
      fst (snd (manifestMatchesPlatform L i img p)) = None)
   \<and> (leases_ListResources i (imageKey L (image_ID img)) = Inl e \<longrightarrow>
        manifestMatchesPlatform L i img p =
          (False, if IsNotFound e then None else Some e,
           [ListResources (imageKey L (image_ID img))]))
   \<and> (resource_Type r = ''content'' \<and> content_ReaderAt i (resource_ID r) = Inl e' \<longrightarrow>
        scan_resources L i img cmp (r # rs) s =
        scan_resources L i img cmp rs (s\<lparr>st_calls := st_calls s @ [ReaderAt (resource_ID r)]\<rparr>))
   \<and> (resource_Type r = ''content'' \<and> content_ReaderAt i (resource_ID r) = Inr ra
        \<and> ReadAll (makeRdr ra) = (data, Some e') \<longrightarrow>
        scan_resources L i img cmp (r # rs) s =
        scan_resources L i img cmp rs (s\<lparr>st_calls := st_calls s @ [ReaderAt (resource_ID r)]\<rparr>))
   \<and> (resource_Type r = ''content'' \<and> content_ReaderAt i (resource_ID r) = Inr ra
        \<and> ReadAll (makeRdr ra) = (data, None)
        \<and> json_Unmarshal_manifestList L data \<lparr>Manifests = []\<rparr> = (ml', True) \<longrightarrow>
        scan_resources L i img cmp (r # rs) s =
        scan_resources L i img cmp rs
          (s\<lparr>st_calls := st_calls s @ [ReaderAt (resource_ID r)], st_ml := ml'\<rparr>))
   \<and> ((MediaType md = MediaTypeImageManifest L \<or> MediaType md = MediaTypeDockerSchema2Manifest L)
        \<and> cmp (Platform md) \<and> content_ReaderAt i (Digest md) = Inl e' \<longrightarrow>
        scan_manifests L i img cmp (md # mds) s =
        scan_manifests L i img cmp mds (s\<lparr>st_calls := st_calls s @ [ReaderAt (Digest md)]\<rparr>))
   \<and> ((MediaType md = MediaTypeImageManifest L \<or> MediaType md = MediaTypeDockerSchema2Manifest L)
        \<and> cmp (Platform md) \<and> content_ReaderAt i (Digest md) = Inr ra
        \<and> ReadAll (makeRdr ra) = (data, Some e') \<longrightarrow>
        scan_manifests L i img cmp (md # mds) s =
        scan_manifests L i img cmp mds (s\<lparr>st_calls := st_calls s @ [ReaderAt (Digest md)]\<rparr>))
   \<and> ((MediaType md = MediaTypeImageManifest L \<or> MediaType md = MediaTypeDockerSchema2Manifest L)
        \<and> cmp (Platform md) \<and> content_ReaderAt i (Digest md) = Inr ra
        \<and> ReadAll (makeRdr ra) = (data, None)
        \<and> json_Unmarshal_manifest L data (st_m s) = (m', True) \<longrightarrow>
        scan_manifests L i img cmp (md # mds) s =
        scan_manifests L i img cmp mds
          (s\<lparr>st_calls := st_calls s @ [ReaderAt (Digest md)], st_m := m'\<rparr>))"
proof (intro conjI impI)
  assume "leases_ListResources i (imageKey L (image_ID img)) = Inr ls"
  then show "fst (snd (manifestMatchesPlatform L i img p)) = None"
    by (simp add: manifestMatchesPlatform_no_error)
next
  assume "leases_ListResources i (imageKey L (image_ID img)) = Inl e"
  then show "manifestMatchesPlatform L i img p =
          (False, if IsNotFound e then None else Some e,
           [ListResources (imageKey L (image_ID img))])"
    by (rule manifestMatchesPlatform_lease_error)
next
  assume "resource_Type r = ''content'' \<and> content_ReaderAt i (resource_ID r) = Inl e'"
  then show "scan_resources L i img cmp (r # rs) s =
        scan_resources L i img cmp rs (s\<lparr>st_calls := st_calls s @ [ReaderAt (resource_ID r)]\<rparr>)"
    by (simp add: scan_resources_skip_unreadable del: scan_resources.simps)
next
  assume "resource_Type r = ''content'' \<and> content_ReaderAt i (resource_ID r) = Inr ra
        \<and> ReadAll (makeRdr ra) = (data, Some e')"
  then show "scan_resources L i img cmp (r # rs) s =
        scan_resources L i img cmp rs (s\<lparr>st_calls := st_calls s @ [ReaderAt (resource_ID r)]\<rparr>)"
    using scan_resources_skip_read_error [of r i ra data e' L img cmp rs s] by simp
next
  assume "resource_Type r = ''content'' \<and> content_ReaderAt i (resource_ID r) = Inr ra
        \<and> ReadAll (makeRdr ra) = (data, None)
        \<and> json_Unmarshal_manifestList L data \<lparr>Manifests = []\<rparr> = (ml', True)"
  then show "scan_resources L i img cmp (r # rs) s =
        scan_resources L i img cmp rs
          (s\<lparr>st_calls := st_calls s @ [ReaderAt (resource_ID r)], st_ml := ml'\<rparr>)"
    using scan_resources_content_step [of r i ra data L ml' True img cmp rs s] by simp
next
  assume h: "(MediaType md = MediaTypeImageManifest L \<or> MediaType md = MediaTypeDockerSchema2Manifest L)
        \<and> cmp (Platform md) \<and> content_ReaderAt i (Digest md) = Inl e'"
  then show "scan_manifests L i img cmp (md # mds) s =
        scan_manifests L i img cmp mds (s\<lparr>st_calls := st_calls s @ [ReaderAt (Digest md)]\<rparr>)"
    using scan_manifests_entry_step [of md L cmp i img mds s] by simp
next
  assume h: "(MediaType md = MediaTypeImageManifest L \<or> MediaType md = MediaTypeDockerSchema2Manifest L)
        \<and> cmp (Platform md) \<and> content_ReaderAt i (Digest md) = Inr ra
        \<and> ReadAll (makeRdr ra) = (data, Some e')"
  then show "scan_manifests L i img cmp (md # mds) s =
        scan_manifests L i img cmp mds (s\<lparr>st_calls := st_calls s @ [ReaderAt (Digest md)]\<rparr>)"
    using scan_manifests_entry_step [of md L cmp i img mds s] by simp
next
  assume h: "(MediaType md = MediaTypeImageManifest L \<or> MediaType md = MediaTypeDockerSchema2Manifest L)
        \<and> cmp (Platform md) \<and> content_ReaderAt i (Digest md) = Inr ra
        \<and> ReadAll (makeRdr ra) = (data, None)
        \<and> json_Unmarshal_manifest L data (st_m s) = (m', True)"
  then show "scan_manifests L i img cmp (md # mds) s =
        scan_manifests L i img cmp mds
          (s\<lparr>st_calls := st_calls s @ [ReaderAt (Digest md)], st_m := m'\<rparr>)"
    using scan_manifests_entry_step [of md L cmp i img mds s] by simp
qed


text \<open>
  Claim C4 says that every failure on an individual resource or referenced manifest causes
  that candidate to be skipped, the scan going on with the remaining ones, and that no
  such failure produces an error result. The error result is as claimed. A referenced
  manifest whose decoding fails is not skipped, though: what the failed decoding wrote
  stays in \<^verbatim>\<open>m\<close>, which is never cleared, and decides a later candidate. Below, the
  decoding of the first referenced manifest fails; with it the entries give found = true,
  without it the remaining entry gives found = false. The scanner as a whole returns
  found = true and no error on the lease set holding this manifest list.
\<close>

theorem failed_manifest_decoding_is_not_skipped:
  "snd (json_Unmarshal_manifest demo_lib ''manifest-aa-badsize'' zero_manifest)
   \<and> fst (scan_manifests demo_lib (demo_service (Inr [])) demo_image
          (platforms_Only demo_lib (mk_platform ''linux'' ''arm'' ''v7''))
          [demo_entry oci_manifest ''sha256:half'', demo_entry oci_manifest ''sha256:empty'']
          \<lparr>st_ml = zero_manifestList, st_m = zero_manifest, st_calls = []\<rparr>)
   \<and> \<not> fst (scan_manifests demo_lib (demo_service (Inr [])) demo_image
          (platforms_Only demo_lib (mk_platform ''linux'' ''arm'' ''v7''))
          [demo_entry oci_manifest ''sha256:empty'']
          \<lparr>st_ml = zero_manifestList, st_m = zero_manifest, st_calls = []\<rparr>)
   \<and> manifestMatchesPlatform demo_lib (demo_service (Inr [content_resource ''sha256:stale'']))
        demo_image (mk_platform ''linux'' ''arm'' ''v7'')
      = (True, None,
         [ListResources ''moby-image-sha256:aa'', ReaderAt ''sha256:stale'',
          ReaderAt ''sha256:half'', ReaderAt ''sha256:empty''])"
  by (simp add: demo_defs scan_defs)

section \<open>The scan with a decoder that does not read the value it writes into\<close>

text \<open>
  The difference between the scanner and the specification's reading of it lies in the
  manifest variable alone. If decoding a manifest gives the same error flag and, on
  success, the same config digest whatever the variable held before, the scanner returns
  found = true exactly when the specification's condition holds. The decoder of the
  example data is not of this kind, and neither is \<^verbatim>\<open>json.Unmarshal\<close>, which leaves the
  fields absent from the input as they are.
\<close>

lemma scan_manifests_fresh_decoder:
  assumes H: "\<forall>data m. snd (json_Unmarshal_manifest L data m) = snd (json_Unmarshal_manifest L data zero_manifest)
      \<and> (\<not> snd (json_Unmarshal_manifest L data m) \<longrightarrow>
           Digest (Config (fst (json_Unmarshal_manifest L data m)))
           = Digest (Config (fst (json_Unmarshal_manifest L data zero_manifest))))"
  shows "fst (scan_manifests L i img (platforms_Only L p) mds s)
         = list_ex (spec_entry_matches L i img p) mds"
proof (induction mds arbitrary: s)
  case Nil
  show ?case by simp
next
  case (Cons md mds)
  show ?case
  proof (cases "(MediaType md = MediaTypeImageManifest L
                 \<or> MediaType md = MediaTypeDockerSchema2Manifest L)
                \<and> platforms_Only L p (Platform md)")
    case False
    then have "scan_manifests L i img (platforms_Only L p) (md # mds) s
               = scan_manifests L i img (platforms_Only L p) mds s"
      using scan_manifests_skip_media scan_manifests_skip_platform by metis
    moreover have "\<not> spec_entry_matches L i img p md"
      using False by (auto simp add: spec_entry_matches_def)
    ultimately show ?thesis using Cons.IH by simp
  next
    case True
    then have mt: "MediaType md = MediaTypeImageManifest L
                   \<or> MediaType md = MediaTypeDockerSchema2Manifest L"
      and c: "platforms_Only L p (Platform md)" by simp_all
    note step = scan_manifests_entry_step [where cmp = "platforms_Only L p", OF mt c,
                  of i img mds s]
    show ?thesis
    proof (cases "content_ReaderAt i (Digest md)")
      case (Inl e)
      then show ?thesis
        using step Cons.IH by (simp add: spec_entry_matches_def del: scan_manifests.simps)
    next
      case (Inr ra)
      obtain data e where rd: "ReadAll (makeRdr ra) = (data, e)"
        by (cases "ReadAll (makeRdr ra)")
      show ?thesis
      proof (cases e)
        case (Some err)
        then show ?thesis
          using step Inr rd Cons.IH
          by (simp add: spec_entry_matches_def del: scan_manifests.simps)
      next
        case None
        obtain m' err where d: "json_Unmarshal_manifest L data (st_m s) = (m', err)"
          by (cases "json_Unmarshal_manifest L data (st_m s)")
        obtain m0 err0 where d0: "json_Unmarshal_manifest L data zero_manifest = (m0, err0)"
          by (cases "json_Unmarshal_manifest L data zero_manifest")
        have e: "err = err0" and dg: "\<not> err \<Longrightarrow> Digest (Config m') = Digest (Config m0)"
          using H [rule_format, of data "st_m s"] d d0 by simp_all
        show ?thesis
          using step Inr rd None d d0 e dg mt c Cons.IH
          by (auto simp add: spec_entry_matches_def simp del: scan_manifests.simps)
      qed
    qed
  qed
qed


lemma scan_resources_fresh_decoder:
  assumes H: "\<forall>data m. snd (json_Unmarshal_manifest L data m) = snd (json_Unmarshal_manifest L data zero_manifest)
      \<and> (\<not> snd (json_Unmarshal_manifest L data m) \<longrightarrow>
           Digest (Config (fst (json_Unmarshal_manifest L data m)))
           = Digest (Config (fst (json_Unmarshal_manifest L data zero_manifest))))"
  shows "fst (scan_resources L i img (platforms_Only L p) rs s)
         = list_ex (spec_resource_matches L i img p) rs"
proof (induction rs arbitrary: s)
  case Nil
  show ?case by simp
next
  case (Cons r rs)
  show ?case
  proof (cases "resource_Type r = ''content''")
    case False
    then show ?thesis using Cons.IH by (simp add: spec_resource_matches_def)
  next
    case True
    show ?thesis
    proof (cases "content_ReaderAt i (resource_ID r)")
      case (Inl e)
      show ?thesis
        unfolding scan_resources_skip_unreadable [OF True Inl]
        using Inl Cons.IH by (simp add: spec_resource_matches_def)
    next
      case (Inr ra)
      obtain data e where rd: "ReadAll (makeRdr ra) = (data, e)"
        by (cases "ReadAll (makeRdr ra)")
      show ?thesis
      proof (cases e)
        case (Some err)
        show ?thesis
          unfolding scan_resources_skip_read_error [OF True Inr rd [unfolded Some]]
          using Inr rd Some Cons.IH by (simp add: spec_resource_matches_def)
      next
        case None
        obtain ml' err where
          dec: "json_Unmarshal_manifestList L data \<lparr>Manifests = []\<rparr> = (ml', err)"
          by (cases "json_Unmarshal_manifestList L data \<lparr>Manifests = []\<rparr>")
        have sp: "spec_resource_matches L i img p r
                  = (\<not> err \<and> list_ex (spec_entry_matches L i img p) (Manifests ml'))"
          using True Inr rd None dec
          by (simp add: spec_resource_matches_def zero_manifestList_def)
        let ?s3 = "s\<lparr>st_calls := st_calls s @ [ReaderAt (resource_ID r)], st_ml := ml'\<rparr>"
        obtain b s4 where
          sm: "scan_manifests L i img (platforms_Only L p) (Manifests ml') ?s3 = (b, s4)"
          by (cases "scan_manifests L i img (platforms_Only L p) (Manifests ml') ?s3")
        have b: "b = list_ex (spec_entry_matches L i img p) (Manifests ml')"
          using scan_manifests_fresh_decoder [OF H, of i img p "Manifests ml'" ?s3] sm by simp
        show ?thesis
          unfolding scan_resources_content_step [OF True Inr rd [unfolded None] dec] sm
          using sp b Cons.IH
          by (cases err; cases b) simp_all
      qed
    qed
  qed
qed

lemma manifestMatchesPlatform_fresh_decoder:
  assumes H: "\<forall>data m. snd (json_Unmarshal_manifest L data m) = snd (json_Unmarshal_manifest L data zero_manifest)
      \<and> (\<not> snd (json_Unmarshal_manifest L data m) \<longrightarrow>
           Digest (Config (fst (json_Unmarshal_manifest L data m)))
           = Digest (Config (fst (json_Unmarshal_manifest L data zero_manifest))))"
  shows "fst (manifestMatchesPlatform L i img p) = spec_FindMatchingManifest L i img p"
proof (cases "leases_ListResources i (imageKey L (image_ID img))")
  case (Inl e)
  then show ?thesis
    by (simp add: manifestMatchesPlatform_lease_error spec_FindMatchingManifest_def)
next
  case (Inr ls)
  then show ?thesis
    by (simp add: manifestMatchesPlatform_no_error spec_FindMatchingManifest_def
          scan_resources_fresh_decoder [OF H])
qed

end
